theory Spec2Isabelle
  imports Main
begin

unbundle bit_operations_syntax

section \<open>The script library of the Python Script widget\<close>

text \<open>
  The development embeds the script-library part of
  \<^verbatim>\<open>Orange/widgets/data/owpythonscript.py\<close>: the class \<^verbatim>\<open>Script\<close>, the function
  \<^verbatim>\<open>uniqueify_filename\<close> and the methods of \<^verbatim>\<open>OWPythonScript\<close> that add and remove
  scripts, react to a removal published by another widget and hand out the text
  document of a script.

  Python objects have identity: a \<^verbatim>\<open>Script\<close> is an address into a store of
  records, the library list is a list of addresses, and the document cache is a map
  from addresses of scripts to addresses of documents. The files of the machine are
  part of the state, and an exception is a value returned next to the state in which
  it was raised.
\<close>

subsection \<open>Python values and exceptions\<close>

datatype error =
    FileNotFoundError
  | FormatError        \<comment> \<open>what \<^verbatim>\<open>str.format\<close> raises on a malformed or unanswerable template:
                          \<^verbatim>\<open>ValueError\<close>, \<^verbatim>\<open>IndexError\<close>, \<^verbatim>\<open>KeyError\<close> or \<^verbatim>\<open>AttributeError\<close>\<close>
  | IndexError
  | StopIteration
  | TypeError

datatype 'a outcome = Return 'a | Raise error

text \<open>
  The second argument of \<^verbatim>\<open>uniqueify_filename\<close> and the argument of
  \<^verbatim>\<open>documentForScript\<close> are a \<^verbatim>\<open>Script\<close>, \<^verbatim>\<open>None\<close> or an integer.
\<close>

datatype pyval = Obj nat | PyNone | PyInt int

subsection \<open>Strings\<close>

definition endswith :: "string \<Rightarrow> string \<Rightarrow> bool" where
  "endswith s suf \<longleftrightarrow> length suf \<le> length s \<and> drop (length s - length suf) s = suf"

text \<open>\<^verbatim>\<open>str(i)\<close> of an integer: its decimal digits, after a minus sign when negative.\<close>

definition digit :: "nat \<Rightarrow> char" where
  "digit d = ''0123456789'' ! d"

function str_nat :: "nat \<Rightarrow> string" where
  "str_nat n = (if n < 10 then [digit n] else str_nat (n div 10) @ [digit (n mod 10)])"
  by pat_completeness auto
termination
  by (relation "measure (\<lambda>n. n)") auto

declare str_nat.simps [simp del]

definition str :: "int \<Rightarrow> string" where
  "str i = (if i < 0 then CHR ''-'' # str_nat (nat (- i)) else str_nat (nat i))"

text \<open>
  \<^verbatim>\<open>(stem + '{}').format(x)\<close>. The method reads the template from the left: a
  doubled brace is one literal brace, a single closing brace is an error, and a
  single opening brace starts a replacement field. The only argument is \<^verbatim>\<open>x\<close> and
  the template ends with the automatically numbered field \<^verbatim>\<open>{}\<close>, so a field inside
  the stem always ends in an exception (a second automatic field has no argument,
  a numbered one cannot be followed by an automatic one, a named one has no keyword
  argument, an unclosed one is malformed). The call returns exactly when the stem is
  literal text in which every brace is doubled.
\<close>

fun unescape :: "string \<Rightarrow> string option" where
  "unescape [] = Some []"
| "unescape (c # cs) =
     (if c = CHR ''{'' \<or> c = CHR ''}'' then
        (case cs of
           [] \<Rightarrow> None
         | d # ds \<Rightarrow> if d = c then map_option ((#) c) (unescape ds) else None)
      else map_option ((#) c) (unescape cs))"

definition format :: "string \<Rightarrow> string \<Rightarrow> error + string" where
  "format stem x = (case unescape stem of None \<Rightarrow> Inl FormatError | Some lit \<Rightarrow> Inr (lit @ x))"

subsection \<open>The class \<^verbatim>\<open>Script\<close>\<close>

definition DEFAULT_FILENAME :: string where
  "DEFAULT_FILENAME = ''scratch''"

definition Modified :: int where
  "Modified = 1"

definition MissingFromFilesystem :: int where
  "MissingFromFilesystem = 2"

text \<open>
  The attributes \<^verbatim>\<open>_script\<close> and \<^verbatim>\<open>_filename\<close> are the fields \<open>priv_script\<close> and
  \<open>priv_filename\<close>; \<open>fullname\<close> is \<^verbatim>\<open>None\<close> until the script is saved.
\<close>

record script =
  priv_script :: string
  priv_filename :: string
  fullname :: "string option"
  flags :: int

subsection \<open>\<^verbatim>\<open>uniqueify_filename\<close>\<close>

text \<open>
  The names of the scripts of the model other than \<^verbatim>\<open>curr_script\<close>. The class
  \<^verbatim>\<open>Script\<close> defines no equality, so \<^verbatim>\<open>script == curr_script\<close> compares identities,
  and no script equals \<^verbatim>\<open>None\<close> or \<^verbatim>\<open>-1\<close>.
\<close>

definition script_names :: "(nat \<Rightarrow> script) \<Rightarrow> nat list \<Rightarrow> pyval \<Rightarrow> string list" where
  "script_names h model curr_script =
     map (\<lambda>a. priv_filename (h a)) (filter (\<lambda>a. Obj a \<noteq> curr_script) model)"

definition numbered :: "string \<Rightarrow> int \<Rightarrow> string" where
  "numbered lit i = lit @ ''_'' @ str i @ ''.py''"

text \<open>
  The loop \<^verbatim>\<open>while True\<close> of \<^verbatim>\<open>uniqueify_filename\<close>, entered with \<open>i = 2\<close>. It ends
  because \<^verbatim>\<open>str\<close> is injective: the names it tries are pairwise different, and only
  finitely many of them are in \<open>names\<close>.
\<close>

definition digit_val :: "char \<Rightarrow> nat" where
  "digit_val c = of_char c - 48"

definition nat_of_digits :: "string \<Rightarrow> nat" where
  "nat_of_digits cs = foldl (\<lambda>a c. 10 * a + digit_val c) 0 cs"

lemma digit_cases:
  assumes "d < 10"
  obtains "d = 0" | "d = 1" | "d = 2" | "d = 3" | "d = 4"
    | "d = 5" | "d = 6" | "d = 7" | "d = 8" | "d = (9::nat)"
  using assms by atomize_elim arith

lemma digit_val_digit: "d < 10 \<Longrightarrow> digit_val (digit d) = d"
  by (erule digit_cases) (simp_all add: digit_def digit_val_def)

lemma digit_not_minus: "d < 10 \<Longrightarrow> digit d \<noteq> CHR ''-''"
  by (erule digit_cases) (simp_all add: digit_def)

lemma str_nat_not_Nil: "str_nat n \<noteq> []"
  by (subst str_nat.simps) simp

lemma nat_of_digits_str_nat: "nat_of_digits (str_nat n) = n"
proof (induction n rule: str_nat.induct)
  case (1 n)
  show ?case
  proof (cases "n < 10")
    case True
    then show ?thesis
      by (subst str_nat.simps) (simp add: nat_of_digits_def digit_val_digit)
  next
    case False
    then have "nat_of_digits (str_nat (n div 10)) = n div 10" using 1 by simp
    with False show ?thesis
      by (subst str_nat.simps) (simp add: nat_of_digits_def digit_val_digit)
  qed
qed

lemma str_nat_inj: "str_nat m = str_nat n \<Longrightarrow> m = n"
  by (metis nat_of_digits_str_nat)

lemma hd_str_nat: "hd (str_nat n) \<noteq> CHR ''-''"
proof (induction n rule: str_nat.induct)
  case (1 n)
  show ?case
  proof (cases "n < 10")
    case True
    then show ?thesis by (subst str_nat.simps) (simp add: digit_not_minus)
  next
    case False
    with 1 have "hd (str_nat (n div 10)) \<noteq> CHR ''-''" by simp
    with False show ?thesis by (subst str_nat.simps) (simp add: str_nat_not_Nil)
  qed
qed

lemma minus_not_str_nat: "CHR ''-'' # cs \<noteq> str_nat n"
proof
  assume "CHR ''-'' # cs = str_nat n"
  then have "hd (str_nat n) = CHR ''-''" by (metis list.sel(1))
  then show False using hd_str_nat by blast
qed

lemma str_inj: "str i = str j \<Longrightarrow> i = j"
proof -
  assume eq: "str i = str j"
  show ?thesis
  proof (cases "i < 0"; cases "j < 0")
    assume "i < 0" "j < 0"
    with eq have "nat (- i) = nat (- j)" by (simp add: str_def str_nat_inj)
    with \<open>i < 0\<close> \<open>j < 0\<close> show ?thesis by simp
  next
    assume "i < 0" "\<not> j < 0"
    with eq show ?thesis by (simp add: str_def minus_not_str_nat)
  next
    assume "\<not> i < 0" "j < 0"
    with eq show ?thesis by (simp add: str_def minus_not_str_nat [symmetric])
  next
    assume "\<not> i < 0" "\<not> j < 0"
    with eq have "nat i = nat j" by (simp add: str_def str_nat_inj)
    with \<open>\<not> i < 0\<close> \<open>\<not> j < 0\<close> show ?thesis by simp
  qed
qed

lemma numbered_inj: "numbered lit i = numbered lit j \<Longrightarrow> i = j"
  by (simp add: numbered_def str_inj)

lemma finite_numbered: "finite {j. numbered lit j \<in> set names}"
proof -
  have "inj (numbered lit)" by (rule injI) (rule numbered_inj)
  then have "finite (numbered lit -` set names)" by (simp add: finite_vimageI)
  then show ?thesis by (simp add: vimage_def)
qed

lemma format_numbered:
  "format stem (''_'' @ str i) = Inr t \<Longrightarrow> t @ ''.py'' = numbered (the (unescape stem)) i"
  by (auto simp: format_def numbered_def split: option.splits)

function uniqueify_loop :: "string list \<Rightarrow> string \<Rightarrow> int \<Rightarrow> error + string" where
  "uniqueify_loop names stem i =
     (case format stem (''_'' @ str i) of
        Inl e \<Rightarrow> Inl e
      | Inr t \<Rightarrow>
          if t @ ''.py'' \<notin> set names then Inr (t @ ''.py'')
          else uniqueify_loop names stem (i + 1))"
  by pat_completeness auto
termination
proof (relation "measure (\<lambda>(names, stem, i).
    card {j. i \<le> j \<and> numbered (the (unescape stem)) j \<in> set names})")
  show "wf (measure (\<lambda>(names, stem, i).
      card {j. i \<le> j \<and> numbered (the (unescape stem)) j \<in> set names}))"
    by simp
next
  fix names :: "string list" and stem :: string and i :: int and t :: string
  assume fmt: "format stem (''_'' @ str i) = Inr t" and "\<not> t @ ''.py'' \<notin> set names"
  then have mem: "numbered (the (unescape stem)) i \<in> set names"
    using format_numbered [OF fmt] by simp
  let ?lit = "the (unescape stem)"
  let ?A = "{j. i \<le> j \<and> numbered ?lit j \<in> set names}"
  let ?B = "{j. i + 1 \<le> j \<and> numbered ?lit j \<in> set names}"
  have fin: "finite ?A" using finite_numbered [of ?lit names] by simp
  have "i \<in> ?A" and "i \<notin> ?B" and "?B \<subseteq> ?A" using mem by auto
  then have "?B \<subset> ?A" by blast
  then have "card ?B < card ?A" using fin by (rule psubset_card_mono [rotated])
  then show "((names, stem, i + 1), (names, stem, i)) \<in> measure (\<lambda>(names, stem, i).
      card {j. i \<le> j \<and> numbered (the (unescape stem)) j \<in> set names})"
    by simp
qed

declare uniqueify_loop.simps [simp del]

text \<open>The local variable \<^verbatim>\<open>stem\<close>: the name without a final \<^verbatim>\<open>.py\<close>, or the default name.\<close>

definition stem_of :: "string \<Rightarrow> string" where
  "stem_of fname =
     (let stem = (if endswith fname ''.py'' then take (length fname - 3) fname else fname)
      in if stem = [] then DEFAULT_FILENAME else stem)"

definition uniqueify_filename ::
  "(nat \<Rightarrow> script) \<Rightarrow> nat list \<Rightarrow> pyval \<Rightarrow> string \<Rightarrow> error + string" where
  "uniqueify_filename h model curr_script fname =
     (let names = script_names h model curr_script;
          stem = stem_of fname
      in case format stem [] of
           Inl e \<Rightarrow> Inl e
         | Inr t \<Rightarrow>
             if t @ ''.py'' \<in> set names then uniqueify_loop names stem 2
             else Inr (t @ ''.py''))"

subsection \<open>Files and published events\<close>

text \<open>
  The machine outside the program: the directories that exist, the regular files
  with their contents, and the signals emitted so far on the shared
  \<^verbatim>\<open>ScriptStateManager\<close>. Paths are compared as written. The paths the program
  tests, reads, renames and removes are those of script files; a directory at such a
  path is not modelled. Emitting a signal is recorded; the slots of the widgets
  connected to it are the handlers below, run by the caller.
\<close>

datatype event = Saved string string | Removed string | Renamed string string

record world =
  dirs :: "string set"
  files :: "string \<rightharpoonup> string"
  emitted :: "event list"

text \<open>\<^verbatim>\<open>posixpath.join\<close> of two components and \<^verbatim>\<open>posixpath.dirname\<close>.\<close>

definition os_path_join :: "string \<Rightarrow> string \<Rightarrow> string" where
  "os_path_join a b =
     (if take 1 b = ''/'' then b
      else if a = [] \<or> endswith a ''/'' then a @ b
      else a @ ''/'' @ b)"

definition os_path_dirname :: "string \<Rightarrow> string" where
  "os_path_dirname p =
     (let head = rev (dropWhile (\<lambda>c. c \<noteq> CHR ''/'') (rev p))
      in if head \<noteq> [] \<and> head \<noteq> replicate (length head) CHR ''/''
         then rev (dropWhile (\<lambda>c. c = CHR ''/'') (rev head))
         else head)"

text \<open>
  \<^verbatim>\<open>config.data_dir()\<close> belongs to another module: it is the parameter \<open>data_dir\<close> of
  everything that uses the folder of the library.
\<close>

definition SCRIPTS_FOLDER_PATH :: "string \<Rightarrow> string" where
  "SCRIPTS_FOLDER_PATH data_dir = os_path_join data_dir ''python_script_library/''"

definition os_path_exists :: "world \<Rightarrow> string \<Rightarrow> bool" where
  "os_path_exists w p \<longleftrightarrow> files w p \<noteq> None"

definition dir_present :: "world \<Rightarrow> string \<Rightarrow> bool" where
  "dir_present w p \<longleftrightarrow> os_path_dirname p = [] \<or> os_path_dirname p \<in> dirs w"

text \<open>\<^verbatim>\<open>with open(p, 'w') as f: f.write(s)\<close>: fails when the directory of \<open>p\<close> is absent.\<close>

definition open_write :: "world \<Rightarrow> string \<Rightarrow> string \<Rightarrow> error + world" where
  "open_write w p s =
     (if dir_present w p then Inr (w\<lparr>files := (files w)(p \<mapsto> s)\<rparr>)
      else Inl FileNotFoundError)"

text \<open>\<^verbatim>\<open>with open(p) as f: f.read()\<close>\<close>

definition open_read :: "world \<Rightarrow> string \<Rightarrow> error + string" where
  "open_read w p = (case files w p of None \<Rightarrow> Inl FileNotFoundError | Some s \<Rightarrow> Inr s)"

definition os_rename :: "world \<Rightarrow> string \<Rightarrow> string \<Rightarrow> error + world" where
  "os_rename w src dst =
     (case files w src of
        None \<Rightarrow> Inl FileNotFoundError
      | Some s \<Rightarrow>
          if dir_present w dst then Inr (w\<lparr>files := ((files w)(src := None))(dst \<mapsto> s)\<rparr>)
          else Inl FileNotFoundError)"

definition os_remove :: "world \<Rightarrow> string \<Rightarrow> error + world" where
  "os_remove w p =
     (case files w p of
        None \<Rightarrow> Inl FileNotFoundError
      | Some s \<Rightarrow> Inr (w\<lparr>files := (files w)(p := None)\<rparr>))"

definition emit :: "event \<Rightarrow> world \<Rightarrow> world" where
  "emit ev w = w\<lparr>emitted := emitted w @ [ev]\<rparr>"

subsection \<open>The methods of \<^verbatim>\<open>Script\<close>\<close>

text \<open>
  A method takes the object and the world and returns its outcome with both as it
  left them; after \<open>Raise\<close> they are as they were when the exception was raised.
\<close>

definition save_script :: "string \<Rightarrow> script \<Rightarrow> world \<Rightarrow> unit outcome \<times> script \<times> world" where
  "save_script data_dir self w =
     (let p = os_path_join (SCRIPTS_FOLDER_PATH data_dir) (priv_filename self);
          self = self\<lparr>fullname := Some p\<rparr>
      in case open_write w p (priv_script self) of
           Inl e \<Rightarrow> (Raise e, self, w)
         | Inr w' \<Rightarrow>
             (Return (),
              self\<lparr>flags := flags self AND NOT (Modified OR MissingFromFilesystem)\<rparr>, w'))"

definition Script_init ::
  "string \<Rightarrow> string \<Rightarrow> string \<Rightarrow> int \<Rightarrow> world \<Rightarrow> unit outcome \<times> script \<times> world" where
  "Script_init data_dir text fname fl w =
     (let self = \<lparr>priv_script = text, priv_filename = fname, fullname = None, flags = fl\<rparr>
      in if fl AND MissingFromFilesystem = 0 then save_script data_dir self w
         else (Return (), self, w))"

text \<open>The setter of the property \<^verbatim>\<open>script\<close>.\<close>

definition set_script ::
  "string \<Rightarrow> string \<Rightarrow> script \<Rightarrow> world \<Rightarrow> unit outcome \<times> script \<times> world" where
  "set_script data_dir text self w = save_script data_dir (self\<lparr>priv_script := text\<rparr>) w"

text \<open>
  The setter of the property \<^verbatim>\<open>filename\<close>. \<^verbatim>\<open>os.path.exists(None)\<close> raises
  \<^verbatim>\<open>TypeError\<close>.
\<close>

definition set_filename ::
  "string \<Rightarrow> string \<Rightarrow> script \<Rightarrow> world \<Rightarrow> unit outcome \<times> script \<times> world" where
  "set_filename data_dir fname self w =
     (if priv_filename self = fname then (Return (), self, w)
      else
        let old_filename = priv_filename self;
            self = self\<lparr>priv_filename := fname\<rparr>
        in if flags self AND MissingFromFilesystem \<noteq> 0 then (Return (), self, w)
           else
             let old_fullname = fullname self;
                 new_fullname = os_path_join (SCRIPTS_FOLDER_PATH data_dir) fname;
                 self = self\<lparr>fullname := Some new_fullname\<rparr>
             in case old_fullname of
                  None \<Rightarrow> (Raise TypeError, self, w)
                | Some old \<Rightarrow>
                    if os_path_exists w old then
                      (case os_rename w old new_fullname of
                         Inl e \<Rightarrow> (Raise e, self, w)
                       | Inr w' \<Rightarrow> (Return (), self, emit (Renamed old_filename fname) w'))
                    else (Return (), self, w))"

definition reload :: "script \<Rightarrow> world \<Rightarrow> bool outcome \<times> script \<times> world" where
  "reload self w =
     (case fullname self of
        None \<Rightarrow> (Raise TypeError, self, w)
      | Some p \<Rightarrow>
          if \<not> os_path_exists w p then
            (Return False, self\<lparr>flags := MissingFromFilesystem\<rparr>, w)
          else
            (case open_read w p of
               Inl e \<Rightarrow> (Raise e, self, w)
             | Inr text \<Rightarrow> (Return True, self\<lparr>priv_script := text\<rparr>, w)))"

definition refresh :: "string \<Rightarrow> bool \<Rightarrow> script \<Rightarrow> script" where
  "refresh new_script set_modified self =
     (if priv_script self \<noteq> new_script then
        (if set_modified then self\<lparr>flags := flags self OR Modified\<rparr> else self)
          \<lparr>priv_script := new_script\<rparr>
      else self\<lparr>flags := flags self AND NOT Modified\<rparr>)"

subsection \<open>The widget \<^verbatim>\<open>OWPythonScript\<close>\<close>

text \<open>
  A \<^verbatim>\<open>QTextDocument\<close> as \<^verbatim>\<open>documentForScript\<close> prepares it: its text, its
  modification flag, the style of its highlighter and its default font.
\<close>

record document =
  plain_text :: string
  modified :: bool
  highlighter :: string
  default_font :: "string \<times> int"

text \<open>
  The state of one widget: the store of its \<^verbatim>\<open>Script\<close> objects and the next free
  address, \<^verbatim>\<open>libraryList\<close>, the store of its documents, \<^verbatim>\<open>_cachedDocuments\<close> (a
  dictionary keyed by the identity of a script), the text of the editor, and the row
  last given to \<^verbatim>\<open>select_row\<close>. The list and selection models of the toolkit are a
  list and a row; the signals of the view are not followed.
\<close>

record widget =
  heap :: "nat \<Rightarrow> script"
  next_addr :: nat
  libraryList :: "nat list"
  docs :: "nat \<Rightarrow> document"
  next_doc :: nat
  cachedDocuments :: "nat \<rightharpoonup> nat"
  editor_text :: string
  selected_row :: "int option"

definition defaultFont :: string where
  "defaultFont = ''Menlo''"

definition defaultFontSize :: int where
  "defaultFontSize = 13"

text \<open>The position a Python list gives to an index, \<open>None\<close> where it raises \<^verbatim>\<open>IndexError\<close>.\<close>

definition py_index :: "'a list \<Rightarrow> int \<Rightarrow> nat option" where
  "py_index xs i =
     (if 0 \<le> i \<and> i < int (length xs) then Some (nat i)
      else if i < 0 \<and> - int (length xs) \<le> i then Some (nat (int (length xs) + i))
      else None)"

definition select_row :: "int \<Rightarrow> widget \<Rightarrow> widget" where
  "select_row row wd = wd\<lparr>selected_row := Some row\<rparr>"

text \<open>\<^verbatim>\<open>addScript(text=None, filename=DEFAULT_FILENAME)\<close>; the new \<^verbatim>\<open>Script\<close> has the
  default \<^verbatim>\<open>flags=2\<close>.\<close>

definition addScript ::
  "string \<Rightarrow> string option \<Rightarrow> string \<Rightarrow> widget \<Rightarrow> world \<Rightarrow> unit outcome \<times> widget \<times> world" where
  "addScript data_dir text fname wd w =
     (let text = (case text of None \<Rightarrow> editor_text wd | Some t \<Rightarrow> t)
      in case uniqueify_filename (heap wd) (libraryList wd) (PyInt (- 1)) fname of
           Inl e \<Rightarrow> (Raise e, wd, w)
         | Inr fname' \<Rightarrow>
             (case Script_init data_dir text fname' 2 w of
                (Raise e, script, w') \<Rightarrow> (Raise e, wd, w')
              | (Return u, script, w') \<Rightarrow>
                  (Return (),
                   wd\<lparr>heap := (heap wd)(next_addr wd := script),
                      next_addr := Suc (next_addr wd),
                      libraryList := libraryList wd @ [next_addr wd]\<rparr>, w')))"

definition removeScript ::
  "string \<Rightarrow> int \<Rightarrow> widget \<Rightarrow> world \<Rightarrow> unit outcome \<times> widget \<times> world" where
  "removeScript data_dir index wd w =
     (case py_index (libraryList wd) index of
        None \<Rightarrow> (Raise IndexError, wd, w)
      | Some j \<Rightarrow>
          (let script = heap wd (libraryList wd ! j);
               fname = priv_filename script;
               wd = wd\<lparr>libraryList := take j (libraryList wd) @ drop (Suc j) (libraryList wd)\<rparr>
           in (case (if flags script AND MissingFromFilesystem = 0 then
                       (case os_remove w (os_path_join (SCRIPTS_FOLDER_PATH data_dir) fname) of
                          Inl e \<Rightarrow> Inl e
                        | Inr w' \<Rightarrow> Inr (emit (Removed fname) w'))
                     else Inr w) of
                 Inl e \<Rightarrow> (Raise e, wd, w)
               | Inr w' \<Rightarrow>
                   (case (if length (libraryList wd) = 0
                          then addScript data_dir None DEFAULT_FILENAME wd w'
                          else (Return (), wd, w')) of
                      (Raise e, wd', w'') \<Rightarrow> (Raise e, wd', w'')
                    | (Return u, wd', w'') \<Rightarrow>
                        (Return (), select_row (max (index - 1) 0) wd', w'')))))"

text \<open>
  The slot \<^verbatim>\<open>_handleScriptRemoved\<close>. \<^verbatim>\<open>next\<close> of the generator raises
  \<^verbatim>\<open>StopIteration\<close> when no script has the name; \<^verbatim>\<open>libraryList.remove\<close> removes the
  first occurrence of the object.
\<close>

definition handleScriptRemoved ::
  "string \<Rightarrow> string \<Rightarrow> widget \<Rightarrow> world \<Rightarrow> unit outcome \<times> widget \<times> world" where
  "handleScriptRemoved data_dir fname wd w =
     (case find (\<lambda>a. priv_filename (heap wd a) = fname) (libraryList wd) of
        None \<Rightarrow> (Raise StopIteration, wd, w)
      | Some a \<Rightarrow>
          if cachedDocuments wd a \<noteq> None then
            (Return (),
             wd\<lparr>heap := (heap wd)
                  (a := (heap wd a)\<lparr>flags := flags (heap wd a) OR MissingFromFilesystem\<rparr>)\<rparr>, w)
          else
            let wd = wd\<lparr>libraryList := remove1 a (libraryList wd)\<rparr>
            in if length (libraryList wd) = 0 then
                 (case addScript data_dir None DEFAULT_FILENAME wd w of
                    (Raise e, wd', w') \<Rightarrow> (Raise e, wd', w')
                  | (Return u, wd', w') \<Rightarrow> (Return (), select_row 0 wd', w'))
               else (Return (), wd, w))"

text \<open>
  \<^verbatim>\<open>documentForScript(script=0)\<close>: the argument is a \<^verbatim>\<open>Script\<close> or a row of the
  list. The result is the address of the document.
\<close>

definition documentForScript :: "pyval \<Rightarrow> widget \<Rightarrow> nat outcome \<times> widget" where
  "documentForScript script wd =
     (case (case script of
              Obj a \<Rightarrow> Inr a
            | PyNone \<Rightarrow> Inl TypeError
            | PyInt i \<Rightarrow>
                (case py_index (libraryList wd) i of
                   None \<Rightarrow> Inl IndexError
                 | Some j \<Rightarrow> Inr (libraryList wd ! j))) of
        Inl e \<Rightarrow> (Raise e, wd)
      | Inr a \<Rightarrow>
          (case cachedDocuments wd a of
             Some d \<Rightarrow> (Return d, wd)
           | None \<Rightarrow>
               let d = next_doc wd;
                   doc = \<lparr>plain_text = priv_script (heap wd a), modified = False,
                          highlighter = ''Light'',
                          default_font = (defaultFont, defaultFontSize)\<rparr>
               in (Return d,
                   wd\<lparr>docs := (docs wd)(d := doc),
                      next_doc := Suc d,
                      cachedDocuments := (cachedDocuments wd)(a \<mapsto> d)\<rparr>)))"

section \<open>The uniqueness resolver\<close>

lemma unescape_no_brace:
  "CHR ''{'' \<notin> set s \<Longrightarrow> CHR ''}'' \<notin> set s \<Longrightarrow> unescape s = Some s"
  by (induction s) auto

lemma uniqueify_loop_least:
  "unescape stem = Some lit \<Longrightarrow>
   \<exists>k. i \<le> k \<and> uniqueify_loop names stem i = Inr (numbered lit k) \<and>
       numbered lit k \<notin> set names \<and> (\<forall>j. i \<le> j \<and> j < k \<longrightarrow> numbered lit j \<in> set names)"
proof (induction names stem i rule: uniqueify_loop.induct)
  case (1 names stem i)
  have fmt: "format stem (''_'' @ str i) = Inr (lit @ ''_'' @ str i)"
    using "1.prems" by (simp add: format_def)
  show ?case
  proof (cases "numbered lit i \<in> set names")
    case False
    then have "uniqueify_loop names stem i = Inr (numbered lit i)"
      using fmt by (subst uniqueify_loop.simps) (simp add: numbered_def)
    with False show ?thesis by auto
  next
    case True
    then have step: "uniqueify_loop names stem i = uniqueify_loop names stem (i + 1)"
      using fmt by (subst uniqueify_loop.simps) (simp add: numbered_def)
    from True fmt have "\<not> (lit @ ''_'' @ str i) @ ''.py'' \<notin> set names"
      by (simp add: numbered_def)
    from "1.IH" [OF fmt this "1.prems"]
    obtain k where k: "i + 1 \<le> k" "uniqueify_loop names stem (i + 1) = Inr (numbered lit k)"
      "numbered lit k \<notin> set names" "\<forall>j. i + 1 \<le> j \<and> j < k \<longrightarrow> numbered lit j \<in> set names"
      by blast
    have "\<forall>j. i \<le> j \<and> j < k \<longrightarrow> numbered lit j \<in> set names"
    proof (intro allI impI)
      fix j assume "i \<le> j \<and> j < k"
      then have "j = i \<or> (i + 1 \<le> j \<and> j < k)" by linarith
      then show "numbered lit j \<in> set names" using True k(4) by blast
    qed
    with k step show ?thesis by (intro exI [of _ k]) simp
  qed
qed

text \<open>A name that is returned is the name of no other script.\<close>

lemma uniqueify_filename_fresh:
  assumes r: "uniqueify_filename h model c fname = Inr name"
  shows "name \<notin> set (script_names h model c)"
proof (cases "unescape (stem_of fname)")
  case None
  with r show ?thesis by (simp add: uniqueify_filename_def format_def)
next
  case (Some lit)
  show ?thesis
  proof (cases "lit @ ''.py'' \<in> set (script_names h model c)")
    case False
    with r Some show ?thesis by (simp add: uniqueify_filename_def format_def)
  next
    case True
    with r Some have "uniqueify_loop (script_names h model c) (stem_of fname) 2 = Inr name"
      by (simp add: uniqueify_filename_def format_def)
    with uniqueify_loop_least [OF Some, of 2 "script_names h model c"] show ?thesis by auto
  qed
qed

text \<open>
  When every brace of the stem is doubled the function returns: the literal text of
  the stem with \<^verbatim>\<open>.py\<close> if that is free, and otherwise with the least number from 2 on
  that makes it free.
\<close>

lemma uniqueify_filename_literal:
  assumes "unescape (stem_of fname) = Some lit"
  shows "(lit @ ''.py'' \<notin> set (script_names h model c) \<and>
          uniqueify_filename h model c fname = Inr (lit @ ''.py'')) \<or>
         (lit @ ''.py'' \<in> set (script_names h model c) \<and>
          (\<exists>k\<ge>2. uniqueify_filename h model c fname = Inr (numbered lit k) \<and>
             numbered lit k \<notin> set (script_names h model c) \<and>
             (\<forall>j. 2 \<le> j \<and> j < k \<longrightarrow> numbered lit j \<in> set (script_names h model c))))"
proof (cases "lit @ ''.py'' \<in> set (script_names h model c)")
  case False
  with assms show ?thesis by (simp add: uniqueify_filename_def format_def)
next
  case True
  with assms have "uniqueify_filename h model c fname =
      uniqueify_loop (script_names h model c) (stem_of fname) 2"
    by (simp add: uniqueify_filename_def format_def)
  with True uniqueify_loop_least [OF assms, of 2 "script_names h model c"] show ?thesis by auto
qed

lemma uniqueify_filename_single_brace:
  "unescape (stem_of fname) = None \<Longrightarrow> uniqueify_filename h model c fname = Inl FormatError"
  by (simp add: uniqueify_filename_def format_def)

lemma stem_of_cases:
  "stem_of fname =
     (if endswith fname ''.py''
      then (if fname = ''.py'' then ''scratch'' else take (length fname - 3) fname)
      else (if fname = [] then ''scratch'' else fname))"
proof (cases "endswith fname ''.py''")
  case False
  then show ?thesis by (simp add: stem_of_def DEFAULT_FILENAME_def)
next
  case True
  then have len: "3 \<le> length fname" and suf: "drop (length fname - 3) fname = ''.py''"
    by (simp_all add: endswith_def numeral_3_eq_3)
  have "take (length fname - 3) fname = [] \<longleftrightarrow> fname = ''.py''"
  proof
    assume "take (length fname - 3) fname = []"
    with len have "length fname = 3" by auto
    with suf show "fname = ''.py''" by simp
  qed simp
  with True show ?thesis by (simp add: stem_of_def DEFAULT_FILENAME_def)
qed

lemma stem_of_no_brace:
  assumes "CHR ''{'' \<notin> set fname" and "CHR ''}'' \<notin> set fname"
  shows "unescape (stem_of fname) = Some (stem_of fname)"
proof -
  have "set (stem_of fname) \<subseteq> set fname \<union> set ''scratch''"
    using set_take_subset [of "length fname - 3" fname]
    by (auto simp: stem_of_def DEFAULT_FILENAME_def Let_def)
  with assms have "CHR ''{'' \<notin> set (stem_of fname)" and "CHR ''}'' \<notin> set (stem_of fname)"
    by auto
  then show ?thesis by (rule unescape_no_brace)
qed

text \<open>
  Claim C1. The resolver is to return, for every collection, excluded script and
  candidate name, a name that no other script of the collection has. For a
  candidate whose stem has a single brace it returns no name: the stem is used as a
  template of \<^verbatim>\<open>str.format\<close>, and the call raises. At the candidate \<^verbatim>\<open>{\<close> the
  template is \<^verbatim>\<open>{{}\<close>, and the exception is raised whatever the collection holds.
\<close>

theorem uniqueify_filename_brace_raises:
  "uniqueify_filename h model curr_script ''{'' = Inl FormatError"
  by (simp add: uniqueify_filename_def stem_of_def endswith_def format_def)

text \<open>
  Claim C5, as the code has it. For a candidate name without braces the resolver
  removes a final \<^verbatim>\<open>.py\<close> and nothing else (the name \<^verbatim>\<open>.py\<close> and the empty name give
  the default stem \<^verbatim>\<open>scratch\<close>), and returns the stem with \<^verbatim>\<open>.py\<close> when no other
  script has that name, and otherwise the stem with \<^verbatim>\<open>_k.py\<close> for the least
  \<open>k \<ge> 2\<close> that no other script has. Another extension stays in the stem.
\<close>

theorem uniqueify_filename_strips_py_only:
  assumes "CHR ''{'' \<notin> set fname" and "CHR ''}'' \<notin> set fname"
  shows "stem_of fname =
           (if endswith fname ''.py''
            then (if fname = ''.py'' then ''scratch'' else take (length fname - 3) fname)
            else (if fname = [] then ''scratch'' else fname)) \<and>
         ((stem_of fname @ ''.py'' \<notin> set (script_names h model c) \<and>
           uniqueify_filename h model c fname = Inr (stem_of fname @ ''.py'')) \<or>
          (stem_of fname @ ''.py'' \<in> set (script_names h model c) \<and>
           (\<exists>k\<ge>2. uniqueify_filename h model c fname =
                     Inr (stem_of fname @ ''_'' @ str k @ ''.py'') \<and>
              stem_of fname @ ''_'' @ str k @ ''.py'' \<notin> set (script_names h model c) \<and>
              (\<forall>j. 2 \<le> j \<and> j < k \<longrightarrow>
                 stem_of fname @ ''_'' @ str j @ ''.py'' \<in> set (script_names h model c)))))"
  using stem_of_cases [of fname]
    uniqueify_filename_literal [OF stem_of_no_brace [OF assms], of h model c]
  unfolding numbered_def by blast

theorem uniqueify_filename_strips_py_only_witness:
  "CHR ''{'' \<notin> set ''notes.txt'' \<and> CHR ''}'' \<notin> set ''notes.txt'' \<and>
   stem_of ''notes.txt'' = ''notes.txt'' \<and>
   uniqueify_filename (\<lambda>a. \<lparr>priv_script = [], priv_filename = ''a.py'', fullname = None,
       flags = 2\<rparr>) [] (PyInt (- 1)) ''notes.txt'' = Inr ''notes.txt.py''"
  using uniqueify_filename_strips_py_only [of "''notes.txt''"
      "\<lambda>a. \<lparr>priv_script = [], priv_filename = ''a.py'', fullname = None, flags = 2\<rparr>"
      "[]" "PyInt (- 1)"]
  by (simp add: script_names_def endswith_def)

text \<open>
  Claim C5 as stated fails at the candidate \<^verbatim>\<open>notes.txt\<close> in an empty collection:
  the extension \<^verbatim>\<open>.txt\<close> is not removed.
\<close>

theorem uniqueify_filename_keeps_txt:
  "uniqueify_filename (\<lambda>a. \<lparr>priv_script = [], priv_filename = ''a.py'', fullname = None,
       flags = 2\<rparr>) [] (PyInt (- 1)) ''notes.txt'' = Inr ''notes.txt.py'' \<and>
   uniqueify_filename (\<lambda>a. \<lparr>priv_script = [], priv_filename = ''a.py'', fullname = None,
       flags = 2\<rparr>) [] (PyInt (- 1)) ''notes.txt'' \<noteq> Inr ''notes.py''"
  by (simp add: uniqueify_filename_def stem_of_def endswith_def format_def script_names_def)

section \<open>The class \<^verbatim>\<open>Script\<close> and the files\<close>

lemma clear_flags_missing:
  "(f AND NOT (Modified OR MissingFromFilesystem)) AND MissingFromFilesystem = 0"
  unfolding Modified_def MissingFromFilesystem_def and.assoc by simp

lemma clear_flags_modified:
  "(f AND NOT (Modified OR MissingFromFilesystem)) AND Modified = 0"
  unfolding Modified_def MissingFromFilesystem_def and.assoc by simp

lemma set_missing: "(f OR MissingFromFilesystem) AND MissingFromFilesystem \<noteq> 0"
proof -
  have "(f OR 2) AND 2 = (2::int)" by (auto simp add: bit_eq_iff bit_and_iff bit_or_iff)
  then show ?thesis by (simp add: MissingFromFilesystem_def)
qed

lemma save_script_ok:
  "dir_present w (os_path_join (SCRIPTS_FOLDER_PATH data_dir) (priv_filename s)) \<Longrightarrow>
   save_script data_dir s w =
     (Return (),
      s\<lparr>fullname := Some (os_path_join (SCRIPTS_FOLDER_PATH data_dir) (priv_filename s)),
        flags := flags s AND NOT (Modified OR MissingFromFilesystem)\<rparr>,
      w\<lparr>files := (files w)(os_path_join (SCRIPTS_FOLDER_PATH data_dir) (priv_filename s) \<mapsto> priv_script s)\<rparr>)"
  by (simp add: save_script_def open_write_def Let_def)

lemma save_script_no_dir:
  "\<not> dir_present w (os_path_join (SCRIPTS_FOLDER_PATH data_dir) (priv_filename s)) \<Longrightarrow>
   save_script data_dir s w =
     (Raise FileNotFoundError,
      s\<lparr>fullname := Some (os_path_join (SCRIPTS_FOLDER_PATH data_dir) (priv_filename s))\<rparr>, w)"
  by (simp add: save_script_def open_write_def Let_def)

lemma reload_absent:
  "fullname s = Some p \<Longrightarrow> \<not> os_path_exists w p \<Longrightarrow>
   reload s w = (Return False, s\<lparr>flags := MissingFromFilesystem\<rparr>, w)"
  by (simp add: reload_def)

text \<open>
  Claim C2, as the code has it. The setter of \<^verbatim>\<open>script\<close> calls \<^verbatim>\<open>_save_script\<close>
  whatever the flags are. For a script whose \<^verbatim>\<open>MissingFromFilesystem\<close> flag is set,
  setting the content stores it in memory and, when the directory of the target
  exists, also writes it to the file of the script in the library folder; after that
  neither \<^verbatim>\<open>MissingFromFilesystem\<close> nor \<^verbatim>\<open>Modified\<close> is set.
\<close>

theorem set_script_missing_writes:
  assumes "flags s AND MissingFromFilesystem \<noteq> 0"
    and "dir_present w (os_path_join (SCRIPTS_FOLDER_PATH data_dir) (priv_filename s))"
  shows "set_script data_dir text s w =
           (Return (),
            s\<lparr>priv_script := text,
              fullname := Some (os_path_join (SCRIPTS_FOLDER_PATH data_dir) (priv_filename s)),
              flags := flags s AND NOT (Modified OR MissingFromFilesystem)\<rparr>,
            w\<lparr>files := (files w)
                (os_path_join (SCRIPTS_FOLDER_PATH data_dir) (priv_filename s) \<mapsto> text)\<rparr>) \<and>
         (flags s AND NOT (Modified OR MissingFromFilesystem)) AND MissingFromFilesystem = 0 \<and>
         (flags s AND NOT (Modified OR MissingFromFilesystem)) AND Modified = 0"
proof (intro conjI)
  show "set_script data_dir text s w =
           (Return (),
            s\<lparr>priv_script := text,
              fullname := Some (os_path_join (SCRIPTS_FOLDER_PATH data_dir) (priv_filename s)),
              flags := flags s AND NOT (Modified OR MissingFromFilesystem)\<rparr>,
            w\<lparr>files := (files w)
                (os_path_join (SCRIPTS_FOLDER_PATH data_dir) (priv_filename s) \<mapsto> text)\<rparr>)"
    using assms(2) by (simp add: set_script_def save_script_ok)
qed (rule clear_flags_missing clear_flags_modified)+

theorem set_script_missing_writes_witness:
  "flags \<lparr>priv_script = ''old'', priv_filename = ''a.py'', fullname = None, flags = 2\<rparr>
     AND MissingFromFilesystem \<noteq> 0 \<and>
   dir_present \<lparr>dirs = {''/d/python_script_library''}, files = Map.empty, emitted = []\<rparr>
     (os_path_join (SCRIPTS_FOLDER_PATH ''/d'') ''a.py'') \<and>
   set_script ''/d'' ''print(1)''
       \<lparr>priv_script = ''old'', priv_filename = ''a.py'', fullname = None, flags = 2\<rparr>
       \<lparr>dirs = {''/d/python_script_library''}, files = Map.empty, emitted = []\<rparr> =
     (Return (),
      \<lparr>priv_script = ''print(1)'', priv_filename = ''a.py'',
         fullname = Some ''/d/python_script_library/a.py'', flags = 0\<rparr>,
      \<lparr>dirs = {''/d/python_script_library''},
         files = [''/d/python_script_library/a.py'' \<mapsto> ''print(1)''], emitted = []\<rparr>)"
  using set_script_missing_writes [of
      "\<lparr>priv_script = ''old'', priv_filename = ''a.py'', fullname = None, flags = 2\<rparr>"
      "\<lparr>dirs = {''/d/python_script_library''}, files = Map.empty, emitted = []\<rparr>"
      "''/d''" "''print(1)''"]
  by (simp add: os_path_join_def SCRIPTS_FOLDER_PATH_def endswith_def
      os_path_dirname_def dir_present_def Modified_def MissingFromFilesystem_def)

text \<open>
  Claim C2 as stated fails for a script flagged missing in an existing library
  folder: setting its content creates the file.
\<close>

theorem set_script_missing_writes_file:
  "flags \<lparr>priv_script = ''old'', priv_filename = ''a.py'', fullname = None, flags = 2\<rparr>
     AND MissingFromFilesystem \<noteq> 0 \<and>
   files (snd (snd (set_script ''/d'' ''print(1)''
       \<lparr>priv_script = ''old'', priv_filename = ''a.py'', fullname = None, flags = 2\<rparr>
       \<lparr>dirs = {''/d/python_script_library''}, files = Map.empty, emitted = []\<rparr>)))
     ''/d/python_script_library/a.py'' = Some ''print(1)'' \<and>
   files \<lparr>dirs = {''/d/python_script_library''}, files = Map.empty, emitted = []\<rparr>
     ''/d/python_script_library/a.py'' = None"
  by (simp add: set_script_def save_script_def open_write_def os_path_join_def
      SCRIPTS_FOLDER_PATH_def endswith_def os_path_dirname_def dir_present_def
      Modified_def MissingFromFilesystem_def Let_def)

text \<open>
  Claim C3, as the code has it. For a script that is not flagged missing, when the
  directory of the write target is absent, setting the content raises
  \<^verbatim>\<open>FileNotFoundError\<close> to the caller: nothing catches what \<^verbatim>\<open>open\<close> raises. The
  content in memory and \<^verbatim>\<open>fullname\<close> are already updated, the flags and the files
  are as before, so the script is still not flagged missing.
\<close>

theorem set_script_no_dir_raises:
  assumes "flags s AND MissingFromFilesystem = 0"
    and "\<not> dir_present w (os_path_join (SCRIPTS_FOLDER_PATH data_dir) (priv_filename s))"
  shows "set_script data_dir text s w =
           (Raise FileNotFoundError,
            s\<lparr>priv_script := text,
              fullname := Some (os_path_join (SCRIPTS_FOLDER_PATH data_dir) (priv_filename s))\<rparr>,
            w) \<and>
         flags (fst (snd (set_script data_dir text s w))) AND MissingFromFilesystem = 0"
  using assms by (simp add: set_script_def save_script_no_dir)

theorem set_script_no_dir_raises_witness:
  "flags \<lparr>priv_script = ''old'', priv_filename = ''a.py'',
      fullname = Some ''/d/python_script_library/a.py'', flags = 0\<rparr> AND MissingFromFilesystem = 0 \<and>
   \<not> dir_present \<lparr>dirs = {}, files = Map.empty, emitted = []\<rparr>
     (os_path_join (SCRIPTS_FOLDER_PATH ''/d'') ''a.py'') \<and>
   set_script ''/d'' ''print(1)''
       \<lparr>priv_script = ''old'', priv_filename = ''a.py'',
          fullname = Some ''/d/python_script_library/a.py'', flags = 0\<rparr>
       \<lparr>dirs = {}, files = Map.empty, emitted = []\<rparr> =
     (Raise FileNotFoundError,
      \<lparr>priv_script = ''print(1)'', priv_filename = ''a.py'',
         fullname = Some ''/d/python_script_library/a.py'', flags = 0\<rparr>,
      \<lparr>dirs = {}, files = Map.empty, emitted = []\<rparr>)"
  using set_script_no_dir_raises [of
      "\<lparr>priv_script = ''old'', priv_filename = ''a.py'',
          fullname = Some ''/d/python_script_library/a.py'', flags = 0\<rparr>"
      "\<lparr>dirs = {}, files = Map.empty, emitted = []\<rparr>" "''/d''" "''print(1)''"]
  by (simp add: os_path_join_def SCRIPTS_FOLDER_PATH_def endswith_def
      os_path_dirname_def dir_present_def MissingFromFilesystem_def)

text \<open>
  Claim C3 as stated fails for a script that is not flagged missing when no directory
  exists: the setter raises, and the script is not flagged missing afterwards.
\<close>

theorem set_script_absent_dir_not_silent:
  "flags \<lparr>priv_script = ''old'', priv_filename = ''a.py'',
      fullname = Some ''/d/python_script_library/a.py'', flags = 0\<rparr> AND MissingFromFilesystem = 0 \<and>
   os_path_dirname (os_path_join (SCRIPTS_FOLDER_PATH ''/d'') ''a.py'')
     \<notin> dirs \<lparr>dirs = {}, files = Map.empty, emitted = []\<rparr> \<and>
   fst (set_script ''/d'' ''print(1)''
       \<lparr>priv_script = ''old'', priv_filename = ''a.py'',
          fullname = Some ''/d/python_script_library/a.py'', flags = 0\<rparr>
       \<lparr>dirs = {}, files = Map.empty, emitted = []\<rparr>) = Raise FileNotFoundError \<and>
   flags (fst (snd (set_script ''/d'' ''print(1)''
       \<lparr>priv_script = ''old'', priv_filename = ''a.py'',
          fullname = Some ''/d/python_script_library/a.py'', flags = 0\<rparr>
       \<lparr>dirs = {}, files = Map.empty, emitted = []\<rparr>))) AND MissingFromFilesystem = 0"
  by (simp add: set_script_def save_script_def open_write_def os_path_join_def
      SCRIPTS_FOLDER_PATH_def endswith_def os_path_dirname_def dir_present_def
      Modified_def MissingFromFilesystem_def Let_def)

text \<open>
  Claim C4, as the code has it. For a script that is not flagged missing and has
  been saved before, setting a different file name renames the backing file and
  emits \<^verbatim>\<open>scriptRenamed\<close> when the old file exists (and the directory of the new path
  does); when the old file does not exist the setter raises nothing: it updates the
  name and \<^verbatim>\<open>fullname\<close> of the script, renames no file and emits no signal.
\<close>

theorem set_filename_renames_if_exists:
  assumes "flags s AND MissingFromFilesystem = 0"
    and "priv_filename s \<noteq> fname"
    and "fullname s = Some old"
  shows "(files w old = Some text \<and>
          dir_present w (os_path_join (SCRIPTS_FOLDER_PATH data_dir) fname) \<longrightarrow>
          set_filename data_dir fname s w =
            (Return (),
             s\<lparr>priv_filename := fname,
               fullname := Some (os_path_join (SCRIPTS_FOLDER_PATH data_dir) fname)\<rparr>,
             w\<lparr>files := ((files w)(old := None))
                  (os_path_join (SCRIPTS_FOLDER_PATH data_dir) fname \<mapsto> text),
               emitted := emitted w @ [Renamed (priv_filename s) fname]\<rparr>)) \<and>
         (files w old = None \<longrightarrow>
          set_filename data_dir fname s w =
            (Return (),
             s\<lparr>priv_filename := fname,
               fullname := Some (os_path_join (SCRIPTS_FOLDER_PATH data_dir) fname)\<rparr>,
             w))"
  using assms
  by (simp add: set_filename_def os_path_exists_def os_rename_def emit_def Let_def)

theorem set_filename_renames_if_exists_witness:
  "flags \<lparr>priv_script = ''1'', priv_filename = ''a.py'',
      fullname = Some ''/d/python_script_library/a.py'', flags = 0\<rparr> AND MissingFromFilesystem = 0 \<and>
   ''a.py'' \<noteq> ''b.py'' \<and>
   dir_present \<lparr>dirs = {''/d/python_script_library''},
       files = [''/d/python_script_library/a.py'' \<mapsto> ''1''], emitted = []\<rparr>
     (os_path_join (SCRIPTS_FOLDER_PATH ''/d'') ''b.py'') \<and>
   set_filename ''/d'' ''b.py''
       \<lparr>priv_script = ''1'', priv_filename = ''a.py'',
          fullname = Some ''/d/python_script_library/a.py'', flags = 0\<rparr>
       \<lparr>dirs = {''/d/python_script_library''},
          files = [''/d/python_script_library/a.py'' \<mapsto> ''1''], emitted = []\<rparr> =
     (Return (),
      \<lparr>priv_script = ''1'', priv_filename = ''b.py'',
         fullname = Some ''/d/python_script_library/b.py'', flags = 0\<rparr>,
      \<lparr>dirs = {''/d/python_script_library''},
         files = [''/d/python_script_library/b.py'' \<mapsto> ''1''],
         emitted = [Renamed ''a.py'' ''b.py'']\<rparr>) \<and>
   set_filename ''/d'' ''b.py''
       \<lparr>priv_script = ''1'', priv_filename = ''a.py'',
          fullname = Some ''/d/python_script_library/a.py'', flags = 0\<rparr>
       \<lparr>dirs = {''/d/python_script_library''}, files = Map.empty, emitted = []\<rparr> =
     (Return (),
      \<lparr>priv_script = ''1'', priv_filename = ''b.py'',
         fullname = Some ''/d/python_script_library/b.py'', flags = 0\<rparr>,
      \<lparr>dirs = {''/d/python_script_library''}, files = Map.empty, emitted = []\<rparr>)"
  using
    set_filename_renames_if_exists [of
      "\<lparr>priv_script = ''1'', priv_filename = ''a.py'',
          fullname = Some ''/d/python_script_library/a.py'', flags = 0\<rparr>"
      "''b.py''" "''/d/python_script_library/a.py''"
      "\<lparr>dirs = {''/d/python_script_library''},
          files = [''/d/python_script_library/a.py'' \<mapsto> ''1''], emitted = []\<rparr>"
      "''1''" "''/d''"]
    set_filename_renames_if_exists [of
      "\<lparr>priv_script = ''1'', priv_filename = ''a.py'',
          fullname = Some ''/d/python_script_library/a.py'', flags = 0\<rparr>"
      "''b.py''" "''/d/python_script_library/a.py''"
      "\<lparr>dirs = {''/d/python_script_library''}, files = Map.empty, emitted = []\<rparr>"
      "''1''" "''/d''"]
  by (simp add: os_path_join_def SCRIPTS_FOLDER_PATH_def endswith_def
      os_path_dirname_def dir_present_def MissingFromFilesystem_def fun_upd_twist)

text \<open>
  Claim C4 as stated fails for a script that is not flagged missing whose file is
  absent: the setter returns normally, and no signal is emitted.
\<close>

theorem set_filename_absent_source_no_error:
  "flags \<lparr>priv_script = ''1'', priv_filename = ''a.py'',
      fullname = Some ''/d/python_script_library/a.py'', flags = 0\<rparr> AND MissingFromFilesystem = 0 \<and>
   \<not> os_path_exists \<lparr>dirs = {''/d/python_script_library''}, files = Map.empty, emitted = []\<rparr>
     ''/d/python_script_library/a.py'' \<and>
   set_filename ''/d'' ''b.py''
       \<lparr>priv_script = ''1'', priv_filename = ''a.py'',
          fullname = Some ''/d/python_script_library/a.py'', flags = 0\<rparr>
       \<lparr>dirs = {''/d/python_script_library''}, files = Map.empty, emitted = []\<rparr> =
     (Return (),
      \<lparr>priv_script = ''1'', priv_filename = ''b.py'',
         fullname = Some ''/d/python_script_library/b.py'', flags = 0\<rparr>,
      \<lparr>dirs = {''/d/python_script_library''}, files = Map.empty, emitted = []\<rparr>)"
  by (simp add: set_filename_def os_path_exists_def os_path_join_def
      SCRIPTS_FOLDER_PATH_def endswith_def os_path_dirname_def dir_present_def
      MissingFromFilesystem_def Let_def)

text \<open>
  Claim C8. For every script whose backing file (the path in \<^verbatim>\<open>fullname\<close>) is absent
  when \<^verbatim>\<open>reload\<close> is called, \<^verbatim>\<open>reload\<close> returns \<^verbatim>\<open>False\<close>, the flag
  \<^verbatim>\<open>MissingFromFilesystem\<close> is set afterwards, and the content in memory and the files
  are unchanged. The instance that follows is the scenario of the claim: the content
  \<^verbatim>\<open>1\<close> is replaced by \<^verbatim>\<open>2\<close>, the file is deleted, and \<^verbatim>\<open>reload\<close> fails with the
  content still \<^verbatim>\<open>2\<close>.
\<close>

theorem reload_absent_file_fails:
  assumes "fullname s = Some p" and "\<not> os_path_exists w p"
  shows "fst (reload s w) = Return False \<and>
         flags (fst (snd (reload s w))) AND MissingFromFilesystem \<noteq> 0 \<and>
         priv_script (fst (snd (reload s w))) = priv_script s \<and>
         snd (snd (reload s w)) = w"
  using reload_absent [OF assms] by (simp add: MissingFromFilesystem_def)

theorem reload_absent_file_fails_witness:
  "set_script ''/d'' ''2''
       \<lparr>priv_script = ''1'', priv_filename = ''x.py'',
          fullname = Some ''/d/python_script_library/x.py'', flags = 0\<rparr>
       \<lparr>dirs = {''/d/python_script_library''},
          files = [''/d/python_script_library/x.py'' \<mapsto> ''1''], emitted = []\<rparr> =
     (Return (),
      \<lparr>priv_script = ''2'', priv_filename = ''x.py'',
         fullname = Some ''/d/python_script_library/x.py'', flags = 0\<rparr>,
      \<lparr>dirs = {''/d/python_script_library''},
         files = [''/d/python_script_library/x.py'' \<mapsto> ''2''], emitted = []\<rparr>) \<and>
   \<not> os_path_exists \<lparr>dirs = {''/d/python_script_library''}, files = Map.empty, emitted = []\<rparr>
     ''/d/python_script_library/x.py'' \<and>
   reload
       \<lparr>priv_script = ''2'', priv_filename = ''x.py'',
          fullname = Some ''/d/python_script_library/x.py'', flags = 0\<rparr>
       \<lparr>dirs = {''/d/python_script_library''}, files = Map.empty, emitted = []\<rparr> =
     (Return False,
      \<lparr>priv_script = ''2'', priv_filename = ''x.py'',
         fullname = Some ''/d/python_script_library/x.py'', flags = 2\<rparr>,
      \<lparr>dirs = {''/d/python_script_library''}, files = Map.empty, emitted = []\<rparr>)"
  using reload_absent_file_fails [of
      "\<lparr>priv_script = ''2'', priv_filename = ''x.py'',
          fullname = Some ''/d/python_script_library/x.py'', flags = 0\<rparr>"
      "''/d/python_script_library/x.py''"
      "\<lparr>dirs = {''/d/python_script_library''}, files = Map.empty, emitted = []\<rparr>"]
  by (simp add: set_script_def save_script_def open_write_def reload_def os_path_exists_def os_path_join_def
      SCRIPTS_FOLDER_PATH_def endswith_def os_path_dirname_def dir_present_def
      Modified_def MissingFromFilesystem_def Let_def)

text \<open>
  Claim C10. For every script whose backing file is absent, the failed \<^verbatim>\<open>reload\<close>
  assigns \<^verbatim>\<open>MissingFromFilesystem\<close> to the whole of \<^verbatim>\<open>flags\<close>: the flag \<^verbatim>\<open>Modified\<close> is
  clear afterwards, also when it was set before, and the content in memory is kept.
\<close>

theorem reload_absent_file_clears_modified:
  assumes "fullname s = Some p" and "\<not> os_path_exists w p"
  shows "flags (fst (snd (reload s w))) = MissingFromFilesystem \<and>
         flags (fst (snd (reload s w))) AND Modified = 0 \<and>
         priv_script (fst (snd (reload s w))) = priv_script s"
  using reload_absent [OF assms] by (simp add: MissingFromFilesystem_def Modified_def)

theorem reload_absent_file_clears_modified_witness:
  "fullname \<lparr>priv_script = ''edited'', priv_filename = ''x.py'',
      fullname = Some ''/d/python_script_library/x.py'', flags = 1\<rparr> =
     Some ''/d/python_script_library/x.py'' \<and>
   \<not> os_path_exists \<lparr>dirs = {''/d/python_script_library''}, files = Map.empty, emitted = []\<rparr>
     ''/d/python_script_library/x.py'' \<and>
   flags \<lparr>priv_script = ''edited'', priv_filename = ''x.py'',
      fullname = Some ''/d/python_script_library/x.py'', flags = 1\<rparr> AND Modified \<noteq> 0 \<and>
   flags (fst (snd (reload
       \<lparr>priv_script = ''edited'', priv_filename = ''x.py'',
          fullname = Some ''/d/python_script_library/x.py'', flags = 1\<rparr>
       \<lparr>dirs = {''/d/python_script_library''}, files = Map.empty, emitted = []\<rparr>))) = 2 \<and>
   priv_script (fst (snd (reload
       \<lparr>priv_script = ''edited'', priv_filename = ''x.py'',
          fullname = Some ''/d/python_script_library/x.py'', flags = 1\<rparr>
       \<lparr>dirs = {''/d/python_script_library''}, files = Map.empty, emitted = []\<rparr>))) = ''edited''"
  using reload_absent_file_clears_modified [of
      "\<lparr>priv_script = ''edited'', priv_filename = ''x.py'',
          fullname = Some ''/d/python_script_library/x.py'', flags = 1\<rparr>"
      "''/d/python_script_library/x.py''"
      "\<lparr>dirs = {''/d/python_script_library''}, files = Map.empty, emitted = []\<rparr>"]
  by (simp add: os_path_exists_def Modified_def MissingFromFilesystem_def)

section \<open>The library of the widget\<close>

lemma uniqueify_filename_default_empty:
  "uniqueify_filename h [] c DEFAULT_FILENAME = Inr ''scratch.py''"
  by (simp add: uniqueify_filename_def stem_of_def endswith_def format_def script_names_def
      DEFAULT_FILENAME_def)

lemma addScript_default_empty:
  "libraryList wd = [] \<Longrightarrow>
   addScript data_dir None DEFAULT_FILENAME wd w =
     (Return (),
      wd\<lparr>heap := (heap wd)(next_addr wd :=
             \<lparr>priv_script = editor_text wd, priv_filename = ''scratch.py'',
                fullname = None, flags = 2\<rparr>),
         next_addr := Suc (next_addr wd),
         libraryList := [next_addr wd]\<rparr>, w)"
  by (simp add: addScript_def uniqueify_filename_default_empty Script_init_def
      MissingFromFilesystem_def)

lemma py_index_less: "py_index xs i = Some j \<Longrightarrow> j < length xs"
  by (auto simp: py_index_def split: if_splits)

lemma remove_nth_Nil: "j < length xs \<Longrightarrow> take j xs @ drop (Suc j) xs = [] \<longleftrightarrow> length xs = 1"
  by (cases xs) auto

text \<open>
  Claim C9. For every script, \<^verbatim>\<open>documentForScript\<close> returns a document, caches it
  under the identity of the script, and a second call returns the same document (the
  same address, not a copy) and changes nothing: no second document is built.
\<close>

theorem documentForScript_twice:
  "\<exists>d wd'. documentForScript (Obj a) wd = (Return d, wd') \<and> cachedDocuments wd' a = Some d \<and>
     documentForScript (Obj a) wd' = (Return d, wd')"
  by (cases "cachedDocuments wd a") (simp_all add: documentForScript_def Let_def)

text \<open>
  Claim C7. When the widget receives \<^verbatim>\<open>scriptRemoved\<close> for the name of a script of
  its list (the first with that name): if the script has a cached document it stays
  in the list and only its flag \<^verbatim>\<open>MissingFromFilesystem\<close> is set; if it has none it is
  removed from the list, and when the list is empty then, a new script is added and
  row 0 is selected.
\<close>

theorem handleScriptRemoved_cached_or_not:
  assumes "find (\<lambda>a. priv_filename (heap wd a) = fname) (libraryList wd) = Some a"
  shows "(cachedDocuments wd a \<noteq> None \<longrightarrow>
            handleScriptRemoved data_dir fname wd w =
              (Return (),
               wd\<lparr>heap := (heap wd)(a := (heap wd a)
                    \<lparr>flags := flags (heap wd a) OR MissingFromFilesystem\<rparr>)\<rparr>, w) \<and>
            (flags (heap wd a) OR MissingFromFilesystem) AND MissingFromFilesystem \<noteq> 0) \<and>
         (cachedDocuments wd a = None \<and> remove1 a (libraryList wd) \<noteq> [] \<longrightarrow>
            handleScriptRemoved data_dir fname wd w =
              (Return (), wd\<lparr>libraryList := remove1 a (libraryList wd)\<rparr>, w)) \<and>
         (cachedDocuments wd a = None \<and> remove1 a (libraryList wd) = [] \<longrightarrow>
            handleScriptRemoved data_dir fname wd w =
              (Return (),
               wd\<lparr>heap := (heap wd)(next_addr wd :=
                      \<lparr>priv_script = editor_text wd, priv_filename = ''scratch.py'',
                         fullname = None, flags = 2\<rparr>),
                  next_addr := Suc (next_addr wd),
                  libraryList := [next_addr wd],
                  selected_row := Some 0\<rparr>, w)) \<and>
         (distinct (libraryList wd) \<longrightarrow> a \<notin> set (remove1 a (libraryList wd)))"
  using assms
  by (simp add: handleScriptRemoved_def set_missing addScript_default_empty select_row_def Let_def)

theorem handleScriptRemoved_cached_or_not_witness:
  "handleScriptRemoved ''/d'' ''a.py''
     \<lparr>heap = (\<lambda>a. \<lparr>priv_script = ''x = 1'', priv_filename = ''a.py'', fullname = Some ''/d/python_script_library/a.py'', flags = 0\<rparr>),
      next_addr = 1, libraryList = [0],
      docs = (\<lambda>d. \<lparr>plain_text = [], modified = False, highlighter = [], default_font = ([], 0)\<rparr>),
      next_doc = 1, cachedDocuments = [0 \<mapsto> 0],
      editor_text = ''print(1)'', selected_row = Some 0\<rparr>
     \<lparr>dirs = {''/d/python_script_library''}, files = Map.empty, emitted = []\<rparr> =
   (Return (),
     \<lparr>heap = ((\<lambda>a. \<lparr>priv_script = ''x = 1'', priv_filename = ''a.py'', fullname = Some ''/d/python_script_library/a.py'', flags = 0\<rparr>))(0 := \<lparr>priv_script = ''x = 1'', priv_filename = ''a.py'', fullname = Some ''/d/python_script_library/a.py'', flags = 2\<rparr>),
      next_addr = 1, libraryList = [0],
      docs = (\<lambda>d. \<lparr>plain_text = [], modified = False, highlighter = [], default_font = ([], 0)\<rparr>),
      next_doc = 1, cachedDocuments = [0 \<mapsto> 0],
      editor_text = ''print(1)'', selected_row = Some 0\<rparr>,
     \<lparr>dirs = {''/d/python_script_library''}, files = Map.empty, emitted = []\<rparr>) \<and>
   handleScriptRemoved ''/d'' ''a.py''
     \<lparr>heap = (\<lambda>a. \<lparr>priv_script = ''x = 1'', priv_filename = ''a.py'', fullname = Some ''/d/python_script_library/a.py'', flags = 0\<rparr>),
      next_addr = 1, libraryList = [0],
      docs = (\<lambda>d. \<lparr>plain_text = [], modified = False, highlighter = [], default_font = ([], 0)\<rparr>),
      next_doc = 1, cachedDocuments = Map.empty,
      editor_text = ''print(1)'', selected_row = None\<rparr>
     \<lparr>dirs = {''/d/python_script_library''}, files = Map.empty, emitted = []\<rparr> =
   (Return (),
     \<lparr>heap = ((\<lambda>a. \<lparr>priv_script = ''x = 1'', priv_filename = ''a.py'', fullname = Some ''/d/python_script_library/a.py'', flags = 0\<rparr>))(1 := \<lparr>priv_script = ''print(1)'', priv_filename = ''scratch.py'', fullname = None, flags = 2\<rparr>),
      next_addr = 2, libraryList = [1],
      docs = (\<lambda>d. \<lparr>plain_text = [], modified = False, highlighter = [], default_font = ([], 0)\<rparr>),
      next_doc = 1, cachedDocuments = Map.empty,
      editor_text = ''print(1)'', selected_row = Some 0\<rparr>,
     \<lparr>dirs = {''/d/python_script_library''}, files = Map.empty, emitted = []\<rparr>)"
  using
    handleScriptRemoved_cached_or_not [of
      "\<lparr>heap = (\<lambda>a. \<lparr>priv_script = ''x = 1'', priv_filename = ''a.py'', fullname = Some ''/d/python_script_library/a.py'', flags = 0\<rparr>),
      next_addr = 1, libraryList = [0],
      docs = (\<lambda>d. \<lparr>plain_text = [], modified = False, highlighter = [], default_font = ([], 0)\<rparr>),
      next_doc = 1, cachedDocuments = [0 \<mapsto> 0],
      editor_text = ''print(1)'', selected_row = Some 0\<rparr>"
      "''a.py''" 0 "''/d''"
      "\<lparr>dirs = {''/d/python_script_library''}, files = Map.empty, emitted = []\<rparr>"]
    handleScriptRemoved_cached_or_not [of
      "\<lparr>heap = (\<lambda>a. \<lparr>priv_script = ''x = 1'', priv_filename = ''a.py'', fullname = Some ''/d/python_script_library/a.py'', flags = 0\<rparr>),
      next_addr = 1, libraryList = [0],
      docs = (\<lambda>d. \<lparr>plain_text = [], modified = False, highlighter = [], default_font = ([], 0)\<rparr>),
      next_doc = 1, cachedDocuments = Map.empty,
      editor_text = ''print(1)'', selected_row = None\<rparr>"
      "''a.py''" 0 "''/d''"
      "\<lparr>dirs = {''/d/python_script_library''}, files = Map.empty, emitted = []\<rparr>"]
  by (simp add: MissingFromFilesystem_def)

text \<open>
  Claim C6, as the code has it. For every index that the list accepts, of a script
  that is flagged missing or whose file exists, \<^verbatim>\<open>removeScript\<close> returns with a list
  that is not empty and with the row \<open>max (index - 1) 0\<close> selected. When the only
  script is removed, the list holds one new script: it is named \<^verbatim>\<open>scratch.py\<close>, is not
  on disk, and its content is the text of the editor, which need not be empty.
  Otherwise the list is the old one without the removed entry.
\<close>

theorem removeScript_keeps_nonempty:
  assumes "py_index (libraryList wd) index = Some j"
    and "flags (heap wd (libraryList wd ! j)) AND MissingFromFilesystem \<noteq> 0 \<or>
         files w (os_path_join (SCRIPTS_FOLDER_PATH data_dir)
                    (priv_filename (heap wd (libraryList wd ! j)))) \<noteq> None"
  shows "fst (removeScript data_dir index wd w) = Return () \<and>
         libraryList (fst (snd (removeScript data_dir index wd w))) \<noteq> [] \<and>
         selected_row (fst (snd (removeScript data_dir index wd w))) = Some (max (index - 1) 0) \<and>
         (length (libraryList wd) = 1 \<longrightarrow>
            libraryList (fst (snd (removeScript data_dir index wd w))) = [next_addr wd] \<and>
            heap (fst (snd (removeScript data_dir index wd w))) (next_addr wd) =
              \<lparr>priv_script = editor_text wd, priv_filename = ''scratch.py'',
                 fullname = None, flags = 2\<rparr>) \<and>
         (length (libraryList wd) \<noteq> 1 \<longrightarrow>
            libraryList (fst (snd (removeScript data_dir index wd w))) =
              take j (libraryList wd) @ drop (Suc j) (libraryList wd) \<and>
            heap (fst (snd (removeScript data_dir index wd w))) = heap wd)"
proof -
  let ?script = "heap wd (libraryList wd ! j)"
  let ?rest = "take j (libraryList wd) @ drop (Suc j) (libraryList wd)"
  let ?wd1 = "wd\<lparr>libraryList := ?rest\<rparr>"
  have j: "j < length (libraryList wd)" using assms(1) by (rule py_index_less)
  have empty: "?rest = [] \<longleftrightarrow> length (libraryList wd) = 1" using j by (rule remove_nth_Nil)
  let ?p = "os_path_join (SCRIPTS_FOLDER_PATH data_dir) (priv_filename ?script)"
  have "\<exists>w'. (if flags ?script AND MissingFromFilesystem = 0 then
         (case os_remove w ?p of
            Inl e \<Rightarrow> Inl e
          | Inr w' \<Rightarrow> Inr (emit (Removed (priv_filename ?script)) w'))
       else Inr w) = Inr w'"
  proof (cases "flags ?script AND MissingFromFilesystem = 0")
    case True
    with assms(2) obtain content where "files w ?p = Some content" by auto
    with True show ?thesis by (simp add: os_remove_def)
  next
    case False
    then show ?thesis by simp
  qed
  then obtain w' where rm: "(if flags ?script AND MissingFromFilesystem = 0 then
         (case os_remove w ?p of
            Inl e \<Rightarrow> Inl e
          | Inr w' \<Rightarrow> Inr (emit (Removed (priv_filename ?script)) w'))
       else Inr w) = Inr w'"
    by blast
  define rest where "rest = take j (libraryList wd) @ drop (Suc j) (libraryList wd)"
  have unfolded: "removeScript data_dir index wd w =
      (case (if length rest = 0
             then addScript data_dir None DEFAULT_FILENAME (wd\<lparr>libraryList := rest\<rparr>) w'
             else (Return (), wd\<lparr>libraryList := rest\<rparr>, w')) of
         (Raise e, wd', w'') \<Rightarrow> (Raise e, wd', w'')
       | (Return u, wd', w'') \<Rightarrow> (Return (), select_row (max (index - 1) 0) wd', w''))"
    unfolding removeScript_def Let_def
    apply (simp only: assms(1) option.case)
    apply (simp only: rm sum.case)
    apply (simp only: rest_def [symmetric])
    apply simp
    done
  have empty': "rest = [] \<longleftrightarrow> length (libraryList wd) = 1"
    using empty by (simp add: rest_def)
  show ?thesis
  proof (cases "rest = []")
    case True
    then have "libraryList (wd\<lparr>libraryList := rest\<rparr>) = []" by simp
    from addScript_default_empty [OF this, of data_dir w'] True
    have "removeScript data_dir index wd w =
        (Return (), select_row (max (index - 1) 0)
           (wd\<lparr>heap := (heap wd)(next_addr wd :=
               \<lparr>priv_script = editor_text wd, priv_filename = ''scratch.py'',
                  fullname = None, flags = 2\<rparr>),
             next_addr := Suc (next_addr wd), libraryList := [next_addr wd]\<rparr>), w')"
      by (simp add: unfolded)
    with True empty' show ?thesis by (simp add: select_row_def)
  next
    case False
    then have "removeScript data_dir index wd w =
        (Return (), select_row (max (index - 1) 0) (wd\<lparr>libraryList := rest\<rparr>), w')"
      by (simp add: unfolded)
    with False empty' show ?thesis by (simp add: select_row_def rest_def [symmetric])
  qed
qed

theorem removeScript_keeps_nonempty_witness:
  "py_index [0::nat] 0 = Some 0 \<and>
   files \<lparr>dirs = {''/d/python_script_library''}, files = [''/d/python_script_library/a.py'' \<mapsto> ''x = 1''], emitted = []\<rparr>
     (os_path_join (SCRIPTS_FOLDER_PATH ''/d'') ''a.py'') \<noteq> None \<and>
   fst (removeScript ''/d'' 0
     \<lparr>heap = (\<lambda>a. \<lparr>priv_script = ''x = 1'', priv_filename = ''a.py'', fullname = Some ''/d/python_script_library/a.py'', flags = 0\<rparr>),
      next_addr = 1, libraryList = [0],
      docs = (\<lambda>d. \<lparr>plain_text = [], modified = False, highlighter = [], default_font = ([], 0)\<rparr>),
      next_doc = 1, cachedDocuments = Map.empty,
      editor_text = ''print(1)'', selected_row = Some 0\<rparr>
     \<lparr>dirs = {''/d/python_script_library''}, files = [''/d/python_script_library/a.py'' \<mapsto> ''x = 1''], emitted = []\<rparr>) = Return () \<and>
   libraryList (fst (snd (removeScript ''/d'' 0
     \<lparr>heap = (\<lambda>a. \<lparr>priv_script = ''x = 1'', priv_filename = ''a.py'', fullname = Some ''/d/python_script_library/a.py'', flags = 0\<rparr>),
      next_addr = 1, libraryList = [0],
      docs = (\<lambda>d. \<lparr>plain_text = [], modified = False, highlighter = [], default_font = ([], 0)\<rparr>),
      next_doc = 1, cachedDocuments = Map.empty,
      editor_text = ''print(1)'', selected_row = Some 0\<rparr>
     \<lparr>dirs = {''/d/python_script_library''}, files = [''/d/python_script_library/a.py'' \<mapsto> ''x = 1''], emitted = []\<rparr>))) = [1] \<and>
   selected_row (fst (snd (removeScript ''/d'' 0
     \<lparr>heap = (\<lambda>a. \<lparr>priv_script = ''x = 1'', priv_filename = ''a.py'', fullname = Some ''/d/python_script_library/a.py'', flags = 0\<rparr>),
      next_addr = 1, libraryList = [0],
      docs = (\<lambda>d. \<lparr>plain_text = [], modified = False, highlighter = [], default_font = ([], 0)\<rparr>),
      next_doc = 1, cachedDocuments = Map.empty,
      editor_text = ''print(1)'', selected_row = Some 0\<rparr>
     \<lparr>dirs = {''/d/python_script_library''}, files = [''/d/python_script_library/a.py'' \<mapsto> ''x = 1''], emitted = []\<rparr>))) = Some 0"
  using removeScript_keeps_nonempty [of
      "\<lparr>heap = (\<lambda>a. \<lparr>priv_script = ''x = 1'', priv_filename = ''a.py'', fullname = Some ''/d/python_script_library/a.py'', flags = 0\<rparr>),
      next_addr = 1, libraryList = [0],
      docs = (\<lambda>d. \<lparr>plain_text = [], modified = False, highlighter = [], default_font = ([], 0)\<rparr>),
      next_doc = 1, cachedDocuments = Map.empty,
      editor_text = ''print(1)'', selected_row = Some 0\<rparr>"
      0 0
      "\<lparr>dirs = {''/d/python_script_library''}, files = [''/d/python_script_library/a.py'' \<mapsto> ''x = 1''], emitted = []\<rparr>" "''/d''"]
  by (simp add: py_index_def os_path_join_def SCRIPTS_FOLDER_PATH_def endswith_def)

text \<open>
  Claim C6 as stated fails when the only script, a scratch script, is removed while
  the editor shows \<^verbatim>\<open>print(1)\<close>: the script created in its place is not blank, it has
  the text of the editor.
\<close>

theorem removeScript_new_script_not_blank:
  "libraryList (fst (snd (removeScript ''/d'' 0
     \<lparr>heap = (\<lambda>a. \<lparr>priv_script = ''print(1)'', priv_filename = ''scratch.py'', fullname = None, flags = 2\<rparr>),
      next_addr = 1, libraryList = [0],
      docs = (\<lambda>d. \<lparr>plain_text = [], modified = False, highlighter = [], default_font = ([], 0)\<rparr>),
      next_doc = 1, cachedDocuments = Map.empty,
      editor_text = ''print(1)'', selected_row = Some 0\<rparr>
     \<lparr>dirs = {''/d/python_script_library''}, files = Map.empty, emitted = []\<rparr>))) = [1] \<and>
   priv_script (heap (fst (snd (removeScript ''/d'' 0
     \<lparr>heap = (\<lambda>a. \<lparr>priv_script = ''print(1)'', priv_filename = ''scratch.py'', fullname = None, flags = 2\<rparr>),
      next_addr = 1, libraryList = [0],
      docs = (\<lambda>d. \<lparr>plain_text = [], modified = False, highlighter = [], default_font = ([], 0)\<rparr>),
      next_doc = 1, cachedDocuments = Map.empty,
      editor_text = ''print(1)'', selected_row = Some 0\<rparr>
     \<lparr>dirs = {''/d/python_script_library''}, files = Map.empty, emitted = []\<rparr>))) 1) = ''print(1)'' \<and>
   priv_script (heap (fst (snd (removeScript ''/d'' 0
     \<lparr>heap = (\<lambda>a. \<lparr>priv_script = ''print(1)'', priv_filename = ''scratch.py'', fullname = None, flags = 2\<rparr>),
      next_addr = 1, libraryList = [0],
      docs = (\<lambda>d. \<lparr>plain_text = [], modified = False, highlighter = [], default_font = ([], 0)\<rparr>),
      next_doc = 1, cachedDocuments = Map.empty,
      editor_text = ''print(1)'', selected_row = Some 0\<rparr>
     \<lparr>dirs = {''/d/python_script_library''}, files = Map.empty, emitted = []\<rparr>))) 1) \<noteq> []"
  by (simp add: removeScript_def py_index_def MissingFromFilesystem_def addScript_default_empty
      select_row_def Let_def)

text \<open>
  Outside the hypotheses of the theorem above: when the script is not flagged missing
  and its file is gone, \<^verbatim>\<open>os.remove\<close> raises after the entry has left the list, and
  no script is added.
\<close>

lemma removeScript_absent_file_raises:
  "removeScript ''/d'' 0
     \<lparr>heap = (\<lambda>a. \<lparr>priv_script = ''x = 1'', priv_filename = ''a.py'', fullname = Some ''/d/python_script_library/a.py'', flags = 0\<rparr>),
      next_addr = 1, libraryList = [0],
      docs = (\<lambda>d. \<lparr>plain_text = [], modified = False, highlighter = [], default_font = ([], 0)\<rparr>),
      next_doc = 1, cachedDocuments = Map.empty,
      editor_text = ''print(1)'', selected_row = Some 0\<rparr>
     \<lparr>dirs = {''/d/python_script_library''}, files = Map.empty, emitted = []\<rparr> =
   (Raise FileNotFoundError,
     \<lparr>heap = (\<lambda>a. \<lparr>priv_script = ''x = 1'', priv_filename = ''a.py'', fullname = Some ''/d/python_script_library/a.py'', flags = 0\<rparr>),
      next_addr = 1, libraryList = [],
      docs = (\<lambda>d. \<lparr>plain_text = [], modified = False, highlighter = [], default_font = ([], 0)\<rparr>),
      next_doc = 1, cachedDocuments = Map.empty,
      editor_text = ''print(1)'', selected_row = Some 0\<rparr>,
     \<lparr>dirs = {''/d/python_script_library''}, files = Map.empty, emitted = []\<rparr>)"
  by (simp add: removeScript_def py_index_def MissingFromFilesystem_def os_remove_def
      os_path_join_def SCRIPTS_FOLDER_PATH_def endswith_def Let_def)

end
